theory Spec2Isabelle
  imports Main
begin

section \<open>Syntax tables of \<^verbatim>\<open>src/lib/syntax.ts\<close>\<close>

text \<open>
  A JavaScript string is modelled as a \<^typ>\<open>string\<close>, one element per code unit; the
  tables only ever compare strings for equality. An optional argument
  (\<^verbatim>\<open>syntax?: string\<close>) is a \<^typ>\<open>string option\<close>, \<^term>\<open>None\<close> standing for
  \<^verbatim>\<open>undefined\<close>.
\<close>

definition xmlSyntaxes :: "string list" where
  "xmlSyntaxes = [''xml'', ''xsl'', ''jsx'']"

definition htmlSyntaxes :: "string list" where
  "htmlSyntaxes = [''html'', ''htmlmixed'', ''vue'']"

definition cssSyntaxes :: "string list" where
  "cssSyntaxes = [''css'', ''scss'', ''less'']"

definition jsxSyntaxes :: "string list" where
  "jsxSyntaxes = [''jsx'', ''tsx'']"

definition markupSyntaxes :: "string list" where
  "markupSyntaxes =
     [''haml'', ''jade'', ''pug'', ''slim''] @ htmlSyntaxes @ xmlSyntaxes @ jsxSyntaxes"

definition stylesheetSyntaxes :: "string list" where
  "stylesheetSyntaxes = [''sass'', ''sss'', ''stylus'', ''postcss''] @ cssSyntaxes"

text \<open>\<^verbatim>\<open>Array.prototype.includes\<close> on an array of strings.\<close>

definition array_includes :: "string list \<Rightarrow> string \<Rightarrow> bool" where
  "array_includes arr s = (s \<in> set arr)"

text \<open>
  Truthiness of an optional string: \<^verbatim>\<open>undefined\<close> and the empty string are falsy,
  every other string is truthy.
\<close>

fun truthy :: "string option \<Rightarrow> bool" where
  "truthy None = False"
| "truthy (Some s) = (s \<noteq> [])"

datatype SyntaxType = Markup | Stylesheet

text \<open>The string a \<^typ>\<open>SyntaxType\<close> is at run time.\<close>

fun syntaxTypeName :: "SyntaxType \<Rightarrow> string" where
  "syntaxTypeName Markup = ''markup''"
| "syntaxTypeName Stylesheet = ''stylesheet''"

fun getSyntaxType :: "string option \<Rightarrow> SyntaxType" where
  "getSyntaxType None = Markup"
| "getSyntaxType (Some syntax) =
     (if truthy (Some syntax) \<and> array_includes stylesheetSyntaxes syntax then Stylesheet
      else Markup)"

fun isXML :: "string option \<Rightarrow> bool" where
  "isXML None = False"
| "isXML (Some syntax) =
     (if truthy (Some syntax) then array_includes xmlSyntaxes syntax else False)"

fun isHTML :: "string option \<Rightarrow> bool" where
  "isHTML None = False"
| "isHTML (Some syntax) =
     (if truthy (Some syntax) then array_includes htmlSyntaxes syntax \<or> isXML (Some syntax)
      else False)"

fun isSupported :: "string option \<Rightarrow> bool" where
  "isSupported None = False"
| "isSupported (Some syntax) =
     (if truthy (Some syntax)
      then array_includes markupSyntaxes syntax \<or> array_includes stylesheetSyntaxes syntax
      else False)"

fun isCSS :: "string option \<Rightarrow> bool" where
  "isCSS None = False"
| "isCSS (Some syntax) =
     (if truthy (Some syntax) then array_includes cssSyntaxes syntax else False)"

fun isJSX :: "string option \<Rightarrow> bool" where
  "isJSX None = False"
| "isJSX (Some syntax) =
     (if truthy (Some syntax) then array_includes jsxSyntaxes syntax else False)"

section \<open>Contexts and syntax information\<close>

text \<open>
  Modelled from the spec: the types \<^verbatim>\<open>HTMLContext\<close> and \<^verbatim>\<open>CSSContext\<close> of
  \<^verbatim>\<open>./types\<close>, which \<^verbatim>\<open>syntax.ts\<close> imports. An ancestor is a name with a range
  of two offsets; a CSS context has its ancestors from the outermost to the innermost, an
  optional \<^verbatim>\<open>inline\<close> flag and an optional current token; an HTML context has its
  ancestors and an optional nested CSS context. The \<^verbatim>\<open>type\<close> tag of a context is the
  constructor of \<open>Context\<close>.
\<close>

datatype TokenType = Selector | PropertyName | PropertyValue | BlockEnd

record AncestorNode =
  anc_name :: string
  anc_range :: "int \<times> int"

record CSSToken =
  tok_type :: TokenType
  tok_range :: "int \<times> int"

record CSSContext =
  css_ancestors :: "AncestorNode list"
  css_inline :: "bool option"
  css_current :: "CSSToken option"

record HTMLContext =
  html_ancestors :: "AncestorNode list"
  html_css :: "CSSContext option"

datatype Context = HTML HTMLContext | CSS CSSContext

record SyntaxInfo =
  si_type :: SyntaxType
  si_syntax :: "string option"
  si_inline :: "bool option"
  si_context :: "Context option"

text \<open>
  The editor: the top language of a state is compared by identity with the CSS and the HTML
  language objects; the syntax tree is a black box that resolves an offset and a side to a
  node. A node knows its name, its range and its parent, so a node is modelled together
  with the chain of its parents up to the root, whose parent is \<^verbatim>\<open>null\<close>.
\<close>

datatype Language = CssLanguage | HtmlLanguage | OtherLanguage nat

datatype SyntaxNode =
  SyntaxNode (node_name: string) (node_from: int) (node_to: int)
    (node_parent: "SyntaxNode option")

record EditorState =
  facet_language :: "Language option"
  tree_resolve :: "int \<Rightarrow> int \<Rightarrow> SyntaxNode"

text \<open>The optional argument \<^verbatim>\<open>ctx?: number | HTMLContext | CSSContext\<close>.\<close>

datatype CtxArg = CtxAbsent | CtxPos int | CtxGiven Context

definition docSyntax :: "EditorState \<Rightarrow> string" where
  "docSyntax state =
     (let topLang = facet_language state in
      if topLang = Some CssLanguage then ''css''
      else if topLang = Some HtmlLanguage then ''html''
      else [])"

text \<open>
  \<^verbatim>\<open>getContext\<close> of \<^verbatim>\<open>./context\<close> is the context resolver; it is a parameter here,
  and it may find no context at an offset. The three variables of the source are the
  triple \<open>(inline, syntax, context)\<close>.
\<close>

definition syntaxInfo ::
  "(EditorState \<Rightarrow> int \<Rightarrow> Context option) \<Rightarrow> EditorState \<Rightarrow> CtxArg \<Rightarrow> SyntaxInfo" where
  "syntaxInfo getContext state ctx =
     (let syntax = docSyntax state;
          inline = None;
          context = (case ctx of
                       CtxPos pos \<Rightarrow> getContext state pos
                     | CtxGiven c \<Rightarrow> Some c
                     | CtxAbsent \<Rightarrow> None);
          (inline, syntax, context) =
            (case context of
               Some (HTML h) \<Rightarrow>
                 (case html_css h of
                    Some c \<Rightarrow> (Some True, ''css'', Some (CSS c))
                  | None \<Rightarrow> (inline, syntax, context))
             | Some (CSS c) \<Rightarrow> (inline, ''css'', context)
             | None \<Rightarrow> (inline, syntax, context))
      in \<lparr>si_type = getSyntaxType (Some syntax), si_syntax = Some syntax,
          si_inline = inline, si_context = context\<rparr>)"

section \<open>Feature switches\<close>

text \<open>
  Modelled from the spec: the type \<^verbatim>\<open>EnableForSyntax\<close> of \<^verbatim>\<open>./config\<close>, which
  \<^verbatim>\<open>syntax.ts\<close> imports. An option is a boolean or an array of tags.
\<close>

datatype EnableForSyntax = OptBool bool | OptArray "string list"

text \<open>
  A template literal prints \<^verbatim>\<open>undefined\<close> as the word; an array of strings includes no
  \<^verbatim>\<open>undefined\<close>.
\<close>

fun template_str :: "string option \<Rightarrow> string" where
  "template_str None = ''undefined''"
| "template_str (Some s) = s"

fun includes_value :: "string list \<Rightarrow> string option \<Rightarrow> bool" where
  "includes_value arr None = False"
| "includes_value arr (Some s) = array_includes arr s"

definition candidates_of :: "SyntaxInfo \<Rightarrow> string option list" where
  "candidates_of info =
     (let candidates = [Some (syntaxTypeName (si_type info)), si_syntax info] in
      if si_inline info = Some True
      then candidates @
             [Some (syntaxTypeName (si_type info) @ ''-inline''),
              Some (template_str (si_syntax info) @ ''-inline'')]
      else candidates)"

fun enabledForSyntax :: "EnableForSyntax \<Rightarrow> SyntaxInfo \<Rightarrow> bool" where
  "enabledForSyntax (OptBool True) info = True"
| "enabledForSyntax (OptArray opt) info =
     list_ex (\<lambda>c. includes_value opt c) (candidates_of info)"
| "enabledForSyntax (OptBool False) info = False"

section \<open>Abbreviation contexts\<close>

text \<open>
  Modelled from the spec: \<^verbatim>\<open>last\<close> of \<^verbatim>\<open>./utils\<close>, which \<^verbatim>\<open>syntax.ts\<close> imports.
  It gives the last element of a sequence, the innermost ancestor, and nothing for an
  empty sequence.
\<close>

definition last_item :: "'a list \<Rightarrow> 'a option" where
  "last_item arr = (if length arr > 0 then Some (arr ! (length arr - 1)) else None)"

text \<open>
  \<^verbatim>\<open>String.prototype.slice\<close>: a negative offset counts from the end, both offsets are
  clamped to the string, and an empty range gives the empty string.
\<close>

definition slice :: "string \<Rightarrow> int \<Rightarrow> int \<Rightarrow> string" where
  "slice s a b =
     (let len = int (length s);
          i = (if a < 0 then max (len + a) 0 else min a len);
          j = (if b < 0 then max (len + b) 0 else min b len)
      in if i \<ge> j then [] else take (nat (j - i)) (drop (nat i) s))"

text \<open>
  The attribute scanner of the HTML matcher and \<^verbatim>\<open>attributeValue\<close> of \<^verbatim>\<open>./utils\<close> are
  parameters: the scanner turns the source of a tag and the tag's name into a sequence of
  attribute tokens, and \<^verbatim>\<open>attributeValue\<close> reads the value of a token, if it has one.
\<close>

record AttributeToken =
  attr_name :: string
  attr_value :: "string option"

text \<open>The loop over the tokens, left at the first token named \<^verbatim>\<open>type\<close>.\<close>

fun type_attribute ::
  "(AttributeToken \<Rightarrow> string option) \<Rightarrow> AttributeToken list \<Rightarrow> string option" where
  "type_attribute attributeValue [] = None"
| "type_attribute attributeValue (attr # rest) =
     (if attr_name attr = ''type'' then attributeValue attr
      else type_attribute attributeValue rest)"

definition getEmbeddedStyleSyntax ::
  "(string \<Rightarrow> string \<Rightarrow> AttributeToken list) \<Rightarrow> (AttributeToken \<Rightarrow> string option) \<Rightarrow>
     string \<Rightarrow> HTMLContext \<Rightarrow> string option" where
  "getEmbeddedStyleSyntax attributes attributeValue code ctx =
     (case last_item (html_ancestors ctx) of
        Some parent \<Rightarrow>
          if anc_name parent = ''style''
          then type_attribute attributeValue
                 (attributes (slice code (fst (anc_range parent)) (snd (anc_range parent)))
                    (anc_name parent))
          else None
      | None \<Rightarrow> None)"

record AbbreviationContext =
  ac_name :: string
  ac_attributes :: "(string \<rightharpoonup> string option) option"

text \<open>The walk up the parents of a node, left at a node named \<^verbatim>\<open>OpenTag\<close> or at \<^verbatim>\<open>null\<close>.\<close>

function (sequential) open_tag_walk :: "SyntaxNode option \<Rightarrow> SyntaxNode option" where
  "open_tag_walk None = None"
| "open_tag_walk (Some node) =
     (if node_name node \<noteq> ''OpenTag'' then open_tag_walk (node_parent node) else Some node)"
  by pat_completeness auto
termination
proof (relation "measure (\<lambda>x. case x of None \<Rightarrow> 0 | Some n \<Rightarrow> Suc (size n))")
  show "wf (measure (\<lambda>x. case x of None \<Rightarrow> 0 | Some n \<Rightarrow> Suc (size n)))"
    by simp
next
  fix node :: SyntaxNode
  show "(node_parent node, Some node)
          \<in> measure (\<lambda>x. case x of None \<Rightarrow> 0 | Some n \<Rightarrow> Suc (size n))"
    by (cases node) (auto split: option.splits)
qed

text \<open>
  \<^verbatim>\<open>getTagAttributes\<close> of \<^verbatim>\<open>./utils\<close> is a parameter: it reads the attributes of an
  open tag as a mapping from names to values, a value being a string or \<^verbatim>\<open>null\<close>.
\<close>

definition getMarkupAbbreviationContext ::
  "(EditorState \<Rightarrow> SyntaxNode \<Rightarrow> (string \<rightharpoonup> string option)) \<Rightarrow> EditorState \<Rightarrow>
     HTMLContext \<Rightarrow> AbbreviationContext option" where
  "getMarkupAbbreviationContext getTagAttributes state ctx =
     (case last_item (html_ancestors ctx) of
        Some parent \<Rightarrow>
          (let node = open_tag_walk (Some (tree_resolve state (fst (anc_range parent)) 1)) in
           Some \<lparr>ac_name = anc_name parent,
                 ac_attributes =
                   Some (case node of
                           Some n \<Rightarrow> getTagAttributes state n
                         | None \<Rightarrow> Map.empty)\<rparr>)
      | None \<Rightarrow> None)"

text \<open>The reserved scopes of \<^verbatim>\<open>CSSAbbreviationScope\<close>.\<close>

definition scope_Global :: string where "scope_Global = ''@@global''"
definition scope_Section :: string where "scope_Section = ''@@section''"
definition scope_Property :: string where "scope_Property = ''@@property''"
definition scope_Value :: string where "scope_Value = ''@@value''"

definition getStylesheetAbbreviationContext :: "CSSContext \<Rightarrow> AbbreviationContext" where
  "getStylesheetAbbreviationContext ctx =
     (if css_inline ctx = Some True
      then \<lparr>ac_name = scope_Property, ac_attributes = None\<rparr>
      else
        let parent = last_item (css_ancestors ctx);
            scope = scope_Global;
            scope =
              (case css_current ctx of
                 Some current \<Rightarrow>
                   if tok_type current = PropertyValue \<and> parent \<noteq> None
                   then anc_name (the parent)
                   else if (tok_type current = Selector \<or> tok_type current = PropertyName)
                           \<and> parent = None
                   then scope_Section
                   else scope
               | None \<Rightarrow> scope)
        in \<lparr>ac_name = scope, ac_attributes = None\<rparr>)"

text \<open>
  What the spec calls the nearest enclosing open tag: the chain of a node and its parents,
  innermost first, and the first node of the chain that is named \<^verbatim>\<open>OpenTag\<close>.
\<close>

fun parent_chain :: "SyntaxNode \<Rightarrow> SyntaxNode list" where
  "parent_chain (SyntaxNode n a b p) =
     SyntaxNode n a b p # (case p of None \<Rightarrow> [] | Some q \<Rightarrow> parent_chain q)"

definition spec_nearest_open_tag :: "SyntaxNode \<Rightarrow> SyntaxNode option" where
  "spec_nearest_open_tag node = find (\<lambda>n. node_name n = ''OpenTag'') (parent_chain node)"

text \<open>
  What the spec calls the context passed to or resolved by \<open>syntaxInfo\<close>: the context
  given, or the one the resolver finds at the offset given.
\<close>

fun spec_context_of ::
  "(EditorState \<Rightarrow> int \<Rightarrow> Context option) \<Rightarrow> EditorState \<Rightarrow> CtxArg \<Rightarrow> Context option" where
  "spec_context_of getContext state CtxAbsent = None"
| "spec_context_of getContext state (CtxPos pos) = getContext state pos"
| "spec_context_of getContext state (CtxGiven c) = Some c"

section \<open>Example inputs\<close>

text \<open>
  A style element with a \<^verbatim>\<open>type\<close> attribute, contexts at the root, under a
  \<^verbatim>\<open>div\<close> and under the style element, a tree with an open tag and one without, and
  stand-ins for the scanner and the attribute reader.
\<close>

definition ex_css :: CSSContext where
  "ex_css = \<lparr>css_ancestors = [], css_inline = None,
             css_current = Some \<lparr>tok_type = PropertyValue, tok_range = (5, 8)\<rparr>\<rparr>"

definition ex_html :: HTMLContext where
  "ex_html = \<lparr>html_ancestors = [\<lparr>anc_name = ''div'', anc_range = (0, 20)\<rparr>],
              html_css = Some ex_css\<rparr>"

definition ex_state :: EditorState where
  "ex_state = \<lparr>facet_language = Some HtmlLanguage,
               tree_resolve = (\<lambda>pos side. SyntaxNode ''Document'' 0 33 None)\<rparr>"

definition ex_open_tag :: SyntaxNode where
  "ex_open_tag =
     SyntaxNode ''OpenTag'' 0 12
       (Some (SyntaxNode ''Element'' 0 33 (Some (SyntaxNode ''Document'' 0 33 None))))"

definition ex_state_tag :: EditorState where
  "ex_state_tag =
     \<lparr>facet_language = Some HtmlLanguage,
      tree_resolve = (\<lambda>pos side. SyntaxNode ''StartTag'' 0 1 (Some ex_open_tag))\<rparr>"

definition ex_getTagAttributes ::
  "EditorState \<Rightarrow> SyntaxNode \<Rightarrow> (string \<rightharpoonup> string option)" where
  "ex_getTagAttributes state node =
     (if node = ex_open_tag then [''id'' \<mapsto> Some ''x''] else Map.empty)"

definition ex_code :: string where
  "ex_code = ''<style type=text/scss>a{}</style>''"

definition ex_attributes :: "string \<Rightarrow> string \<Rightarrow> AttributeToken list" where
  "ex_attributes src tag =
     (if src = ''<style type=text/scss>'' \<and> tag = ''style''
      then [\<lparr>attr_name = ''media'', attr_value = None\<rparr>,
            \<lparr>attr_name = ''type'', attr_value = Some ''text/scss''\<rparr>]
      else [])"

definition ex_root_ctx :: HTMLContext where
  "ex_root_ctx = \<lparr>html_ancestors = [], html_css = None\<rparr>"

definition ex_div_ctx :: HTMLContext where
  "ex_div_ctx = \<lparr>html_ancestors = [\<lparr>anc_name = ''div'', anc_range = (0, 12)\<rparr>],
                 html_css = None\<rparr>"

definition ex_style_ctx :: HTMLContext where
  "ex_style_ctx =
     \<lparr>html_ancestors = [\<lparr>anc_name = ''html'', anc_range = (0, 0)\<rparr>,
                        \<lparr>anc_name = ''style'', anc_range = (0, 22)\<rparr>],
      html_css = None\<rparr>"

definition ex_plain_style_ctx :: HTMLContext where
  "ex_plain_style_ctx =
     \<lparr>html_ancestors = [\<lparr>anc_name = ''style'', anc_range = (0, 6)\<rparr>], html_css = None\<rparr>"

section \<open>Properties of the tables and predicates\<close>

lemma stylesheetSyntaxes_set:
  "set stylesheetSyntaxes =
     {''sass'', ''sss'', ''stylus'', ''postcss'', ''css'', ''scss'', ''less''}"
  by (simp add: stylesheetSyntaxes_def cssSyntaxes_def)

lemma markupSyntaxes_set:
  "set markupSyntaxes =
     {''haml'', ''jade'', ''pug'', ''slim'', ''html'', ''htmlmixed'', ''vue'',
      ''xml'', ''xsl'', ''jsx'', ''tsx''}"
  by (auto simp add: markupSyntaxes_def htmlSyntaxes_def xmlSyntaxes_def jsxSyntaxes_def)

lemma empty_not_stylesheet: "[] \<notin> set stylesheetSyntaxes"
  by (simp add: stylesheetSyntaxes_set)

text \<open>
  C3. Every member of \<^term>\<open>stylesheetSyntaxes\<close> (sass, sss, stylus, postcss, css, scss,
  less) is classified as a stylesheet by \<^term>\<open>getSyntaxType\<close>; every other argument, the
  empty string and an absent argument among them, is classified as markup.
\<close>

theorem getSyntaxType_classifies:
  "set stylesheetSyntaxes =
     {''sass'', ''sss'', ''stylus'', ''postcss'', ''css'', ''scss'', ''less''}
   \<and> getSyntaxType (Some s) = (if s \<in> set stylesheetSyntaxes then Stylesheet else Markup)
   \<and> getSyntaxType (Some '''') = Markup
   \<and> getSyntaxType None = Markup"
proof -
  have "getSyntaxType (Some s) = (if s \<in> set stylesheetSyntaxes then Stylesheet else Markup)"
    using empty_not_stylesheet by (cases s) (auto simp add: array_includes_def)
  moreover have "getSyntaxType (Some '''') = Markup"
    by simp
  ultimately show ?thesis
    using stylesheetSyntaxes_set by simp
qed

text \<open>
  C4. For every syntax name \<open>s\<close>, \<^term>\<open>isHTML\<close> of \<open>s\<close> is: \<open>s\<close> is in
  \<^term>\<open>htmlSyntaxes\<close>, or \<^term>\<open>isXML\<close> holds of \<open>s\<close>. So \<^term>\<open>isHTML\<close> holds of the
  three XML syntaxes (xml, xsl, jsx), and it is false of an absent and of an empty name.
\<close>

theorem isHTML_is_html_or_xml:
  "isHTML (Some s) = (array_includes htmlSyntaxes s \<or> isXML (Some s))
   \<and> isHTML None = (False \<or> isXML None)
   \<and> isHTML (Some ''xml'') \<and> isHTML (Some ''xsl'') \<and> isHTML (Some ''jsx'')
   \<and> set xmlSyntaxes = {''xml'', ''xsl'', ''jsx''}
   \<and> isHTML None = False
   \<and> isHTML (Some '''') = False"
proof -
  have "[] \<notin> set htmlSyntaxes"
    by (simp add: htmlSyntaxes_def)
  then have "isHTML (Some s) = (array_includes htmlSyntaxes s \<or> isXML (Some s))"
    by (cases s) (auto simp add: array_includes_def)
  moreover have "isHTML (Some ''xml'') \<and> isHTML (Some ''xsl'') \<and> isHTML (Some ''jsx'')"
    by (simp add: array_includes_def xmlSyntaxes_def)
  moreover have "set xmlSyntaxes = {''xml'', ''xsl'', ''jsx''}"
    by (simp add: xmlSyntaxes_def)
  ultimately show ?thesis
    by simp
qed

text \<open>
  C8. The tables \<^term>\<open>markupSyntaxes\<close> and \<^term>\<open>stylesheetSyntaxes\<close> are disjoint: no
  name is in both, so a name of the markup table is never classified as a stylesheet by
  \<^term>\<open>getSyntaxType\<close>, which answers by the stylesheet table alone.
\<close>

theorem markup_stylesheet_disjoint:
  "set markupSyntaxes \<inter> set stylesheetSyntaxes = {}
   \<and> \<not> (array_includes markupSyntaxes s \<and> array_includes stylesheetSyntaxes s)
   \<and> (getSyntaxType (Some s) = Stylesheet) = array_includes stylesheetSyntaxes s
   \<and> (array_includes markupSyntaxes s \<and> getSyntaxType (Some s) = Stylesheet) = False"
proof -
  have d: "set markupSyntaxes \<inter> set stylesheetSyntaxes = {}"
    by (simp add: markupSyntaxes_set stylesheetSyntaxes_set)
  have g: "(getSyntaxType (Some s) = Stylesheet) = array_includes stylesheetSyntaxes s"
    using empty_not_stylesheet by (cases s) (auto simp add: array_includes_def)
  from d have n: "\<not> (array_includes markupSyntaxes s \<and> array_includes stylesheetSyntaxes s)"
    by (auto simp add: array_includes_def)
  from d g n show ?thesis
    by simp
qed

text \<open>
  C9. Each of \<^term>\<open>isXML\<close>, \<^term>\<open>isHTML\<close>, \<^term>\<open>isCSS\<close>, \<^term>\<open>isJSX\<close> and
  \<^term>\<open>isSupported\<close> is false of an absent and of an empty syntax name. The predicates
  are total functions: no branch of the source raises.
\<close>

theorem lookups_absent_or_empty:
  "isXML None = False \<and> isXML (Some '''') = False
   \<and> isHTML None = False \<and> isHTML (Some '''') = False
   \<and> isCSS None = False \<and> isCSS (Some '''') = False
   \<and> isJSX None = False \<and> isJSX (Some '''') = False
   \<and> isSupported None = False \<and> isSupported (Some '''') = False"
  by simp

section \<open>Properties of the feature switch\<close>

text \<open>
  C5. The option \<^verbatim>\<open>true\<close> enables every syntax. An array option enables exactly when
  it holds one of the candidate tags: the type, the syntax and, only when \<^verbatim>\<open>inline\<close> is
  true, the type and the syntax followed by \<^verbatim>\<open>-inline\<close>. An absent syntax is no member
  of an array of strings, and the template literal prints it as \<^verbatim>\<open>undefined\<close>.
\<close>

theorem enabledForSyntax_candidates:
  "enabledForSyntax (OptBool True) info = True
   \<and> enabledForSyntax (OptArray opt) info =
       (syntaxTypeName (si_type info) \<in> set opt
        \<or> (\<exists>s. si_syntax info = Some s \<and> s \<in> set opt)
        \<or> (si_inline info = Some True
            \<and> (syntaxTypeName (si_type info) @ ''-inline'' \<in> set opt
               \<or> template_str (si_syntax info) @ ''-inline'' \<in> set opt)))"
proof -
  have m: "includes_value opt c = (\<exists>s. c = Some s \<and> s \<in> set opt)" for c
    by (cases c) (simp_all add: array_includes_def)
  have "enabledForSyntax (OptArray opt) info =
          (\<exists>c \<in> set (candidates_of info). \<exists>s. c = Some s \<and> s \<in> set opt)"
    unfolding enabledForSyntax.simps list_ex_iff using m by blast
  also have "\<dots> =
       (syntaxTypeName (si_type info) \<in> set opt
        \<or> (\<exists>s. si_syntax info = Some s \<and> s \<in> set opt)
        \<or> (si_inline info = Some True
            \<and> (syntaxTypeName (si_type info) @ ''-inline'' \<in> set opt
               \<or> template_str (si_syntax info) @ ''-inline'' \<in> set opt)))"
    by (cases "si_inline info = Some True") (auto simp add: candidates_of_def Let_def)
  finally show ?thesis
    by simp
qed

text \<open>
  C10. An option that is neither \<^verbatim>\<open>true\<close> nor an array, such as \<^verbatim>\<open>false\<close>,
  enables no syntax.
\<close>

theorem enabledForSyntax_other_option:
  "opt \<noteq> OptBool True \<Longrightarrow> (\<forall>arr. opt \<noteq> OptArray arr) \<Longrightarrow> enabledForSyntax opt info = False"
  by (cases opt) (auto elim: enabledForSyntax.elims)

theorem enabledForSyntax_other_option_witness:
  "OptBool False \<noteq> OptBool True \<and> (\<forall>arr. OptBool False \<noteq> OptArray arr)
   \<and> enabledForSyntax (OptBool False)
        \<lparr>si_type = Stylesheet, si_syntax = Some ''css'', si_inline = None, si_context = None\<rparr>
      = False"
  using enabledForSyntax_other_option [of "OptBool False"
      "\<lparr>si_type = Stylesheet, si_syntax = Some ''css'', si_inline = None, si_context = None\<rparr>"]
  by simp

section \<open>Properties of the abbreviation contexts\<close>

lemma last_item_simps:
  "last_item [] = None"
  "last_item (xs @ [x]) = Some x"
  by (simp_all add: last_item_def)

lemma last_item_eq: "last_item xs = (if xs = [] then None else Some (last xs))"
  by (simp add: last_item_def last_conv_nth)

lemma type_attribute_none:
  "\<forall>a \<in> set attrs. attr_name a \<noteq> ''type'' \<Longrightarrow> type_attribute av attrs = None"
  by (induction attrs) simp_all

lemma type_attribute_first:
  "\<forall>x \<in> set pre. attr_name x \<noteq> ''type'' \<Longrightarrow> attr_name a = ''type'' \<Longrightarrow>
     type_attribute av (pre @ a # post) = av a"
  by (induction pre) simp_all

lemma slice_in_range:
  assumes "0 \<le> a" "a \<le> b" "b \<le> int (length s)"
  shows "slice s a b = map (\<lambda>i. s ! i) [nat a..<nat b]"
proof (cases "a = b")
  case True
  then show ?thesis
    using assms by (simp add: slice_def Let_def)
next
  case False
  with assms have lt: "a < b"
    by simp
  have "take (nat (b - a)) (drop (nat a) s) = map (\<lambda>i. s ! i) [nat a..<nat b]"
  proof (rule nth_equalityI)
    show "length (take (nat (b - a)) (drop (nat a) s)) = length (map (\<lambda>i. s ! i) [nat a..<nat b])"
      using assms by (simp add: nat_diff_distrib)
  next
    fix i
    assume "i < length (take (nat (b - a)) (drop (nat a) s))"
    then have i: "i < nat (b - a)" "nat a + i < length s"
      by auto
    then have "nat a + i < nat b"
      using assms by linarith
    with i show "take (nat (b - a)) (drop (nat a) s) ! i = map (\<lambda>i. s ! i) [nat a..<nat b] ! i"
      by simp
  qed
  with lt assms show ?thesis
    by (simp add: slice_def Let_def min_def)
qed

lemma open_tag_walk_nearest: "open_tag_walk (Some node) = spec_nearest_open_tag node"
proof (induction node)
  case (SyntaxNode n a b p)
  show ?case
  proof (cases p)
    case None
    then show ?thesis
      by (simp add: spec_nearest_open_tag_def)
  next
    case (Some q)
    with SyntaxNode.IH [of q] show ?thesis
      by (simp add: spec_nearest_open_tag_def)
  qed
qed

lemma ex_slice: "slice ex_code 0 22 = ''<style type=text/scss>''"
  by (simp add: slice_def ex_code_def)

lemma ex_slice2: "slice ex_code 0 6 = ''<style''"
  by (simp add: slice_def ex_code_def)

text \<open>
  C2. The scope of a CSS context is \<^verbatim>\<open>@@property\<close> when the context is inline,
  whatever its ancestors and its current token. Otherwise it is the name of the innermost
  ancestor when the current token is a property value and there is an ancestor,
  \<^verbatim>\<open>@@section\<close> when the current token is a selector or a property name and there is no
  ancestor, and \<^verbatim>\<open>@@global\<close> in every other case. The result has a name only.
\<close>

theorem getStylesheetAbbreviationContext_scope:
  "ac_name (getStylesheetAbbreviationContext ctx) =
     (if css_inline ctx = Some True then ''@@property''
      else if (\<exists>cur. css_current ctx = Some cur \<and> tok_type cur = PropertyValue)
              \<and> css_ancestors ctx \<noteq> []
      then anc_name (last (css_ancestors ctx))
      else if (\<exists>cur. css_current ctx = Some cur
                 \<and> (tok_type cur = Selector \<or> tok_type cur = PropertyName))
              \<and> css_ancestors ctx = []
      then ''@@section''
      else ''@@global'')
   \<and> ac_attributes (getStylesheetAbbreviationContext ctx) = None"
  by (auto simp add: getStylesheetAbbreviationContext_def last_item_eq scope_Global_def
      scope_Section_def scope_Property_def Let_def split: option.splits)

text \<open>
  C7. With no ancestor, \<^term>\<open>getMarkupAbbreviationContext\<close> returns nothing. Otherwise
  the result is named after the innermost ancestor, and its attributes are those of the
  nearest open tag on the way up from the node resolved at the ancestor's start, or the
  empty mapping when the way up reaches the root without meeting an open tag.
\<close>

theorem getMarkupAbbreviationContext_result:
  "(html_ancestors ctx = [] \<longrightarrow> getMarkupAbbreviationContext getTagAttributes state ctx = None)
   \<and> (html_ancestors ctx \<noteq> [] \<longrightarrow>
        getMarkupAbbreviationContext getTagAttributes state ctx =
          Some \<lparr>ac_name = anc_name (last (html_ancestors ctx)),
                ac_attributes =
                  Some (case spec_nearest_open_tag
                               (tree_resolve state
                                  (fst (anc_range (last (html_ancestors ctx)))) 1) of
                          Some n \<Rightarrow> getTagAttributes state n
                        | None \<Rightarrow> Map.empty)\<rparr>)"
  by (simp add: getMarkupAbbreviationContext_def last_item_eq open_tag_walk_nearest
      del: open_tag_walk.simps)

theorem getMarkupAbbreviationContext_result_witness:
  "getMarkupAbbreviationContext ex_getTagAttributes ex_state_tag ex_root_ctx = None
   \<and> getMarkupAbbreviationContext ex_getTagAttributes ex_state_tag ex_div_ctx =
       Some \<lparr>ac_name = ''div'', ac_attributes = Some [''id'' \<mapsto> Some ''x'']\<rparr>
   \<and> getMarkupAbbreviationContext ex_getTagAttributes ex_state ex_div_ctx =
       Some \<lparr>ac_name = ''div'', ac_attributes = Some Map.empty\<rparr>"
proof -
  have "getMarkupAbbreviationContext ex_getTagAttributes ex_state_tag ex_root_ctx = None"
    using getMarkupAbbreviationContext_result [of ex_root_ctx ex_getTagAttributes ex_state_tag]
    by (simp add: ex_root_ctx_def)
  moreover have "spec_nearest_open_tag (tree_resolve ex_state_tag 0 1) = Some ex_open_tag"
    by (simp add: spec_nearest_open_tag_def ex_state_tag_def ex_open_tag_def)
  then have "getMarkupAbbreviationContext ex_getTagAttributes ex_state_tag ex_div_ctx =
       Some \<lparr>ac_name = ''div'', ac_attributes = Some [''id'' \<mapsto> Some ''x'']\<rparr>"
    using getMarkupAbbreviationContext_result [of ex_div_ctx ex_getTagAttributes ex_state_tag]
    by (simp add: ex_div_ctx_def ex_getTagAttributes_def)
  moreover have "spec_nearest_open_tag (tree_resolve ex_state 0 1) = None"
    by (simp add: spec_nearest_open_tag_def ex_state_def)
  then have "getMarkupAbbreviationContext ex_getTagAttributes ex_state ex_div_ctx =
       Some \<lparr>ac_name = ''div'', ac_attributes = Some Map.empty\<rparr>"
    using getMarkupAbbreviationContext_result [of ex_div_ctx ex_getTagAttributes ex_state]
    by (simp add: ex_div_ctx_def)
  ultimately show ?thesis
    by blast
qed

text \<open>
  C6. \<^term>\<open>getEmbeddedStyleSyntax\<close> returns nothing when there is no ancestor, when the
  innermost ancestor is not named \<^verbatim>\<open>style\<close>, and when the scanner finds no
  \<^verbatim>\<open>type\<close> attribute in the slice of the source at the ancestor's range; otherwise
  it returns the value of the first \<^verbatim>\<open>type\<close> attribute found there. Within the
  source, the slice from \<open>i\<close> to \<open>j\<close> is the characters at \<open>i\<close>, ..., \<open>j - 1\<close>. No
  branch raises, the scanner being total.
\<close>

theorem getEmbeddedStyleSyntax_type:
  "(html_ancestors ctx = [] \<longrightarrow> getEmbeddedStyleSyntax attributes attributeValue code ctx = None)
   \<and> (html_ancestors ctx \<noteq> [] \<and> anc_name (last (html_ancestors ctx)) \<noteq> ''style'' \<longrightarrow>
        getEmbeddedStyleSyntax attributes attributeValue code ctx = None)
   \<and> (html_ancestors ctx \<noteq> [] \<and> anc_name (last (html_ancestors ctx)) = ''style''
        \<and> (\<forall>a \<in> set (attributes
                         (slice code (fst (anc_range (last (html_ancestors ctx))))
                            (snd (anc_range (last (html_ancestors ctx)))))
                         ''style'').
              attr_name a \<noteq> ''type'') \<longrightarrow>
        getEmbeddedStyleSyntax attributes attributeValue code ctx = None)
   \<and> (\<forall>pre a post.
        html_ancestors ctx \<noteq> [] \<and> anc_name (last (html_ancestors ctx)) = ''style''
        \<and> attributes
             (slice code (fst (anc_range (last (html_ancestors ctx))))
                (snd (anc_range (last (html_ancestors ctx)))))
             ''style'' = pre @ a # post
        \<and> (\<forall>x \<in> set pre. attr_name x \<noteq> ''type'') \<and> attr_name a = ''type'' \<longrightarrow>
        getEmbeddedStyleSyntax attributes attributeValue code ctx = attributeValue a)
   \<and> (\<forall>i j. 0 \<le> i \<and> i \<le> j \<and> j \<le> int (length code) \<longrightarrow>
        slice code i j = map (\<lambda>k. code ! k) [nat i..<nat j])"
proof (intro conjI allI impI)
  assume "html_ancestors ctx = []"
  then show "getEmbeddedStyleSyntax attributes attributeValue code ctx = None"
    by (simp add: getEmbeddedStyleSyntax_def last_item_eq)
next
  assume "html_ancestors ctx \<noteq> [] \<and> anc_name (last (html_ancestors ctx)) \<noteq> ''style''"
  then show "getEmbeddedStyleSyntax attributes attributeValue code ctx = None"
    by (simp add: getEmbeddedStyleSyntax_def last_item_eq)
next
  assume "html_ancestors ctx \<noteq> [] \<and> anc_name (last (html_ancestors ctx)) = ''style''
        \<and> (\<forall>a \<in> set (attributes
                         (slice code (fst (anc_range (last (html_ancestors ctx))))
                            (snd (anc_range (last (html_ancestors ctx)))))
                         ''style'').
              attr_name a \<noteq> ''type'')"
  then show "getEmbeddedStyleSyntax attributes attributeValue code ctx = None"
    by (simp add: getEmbeddedStyleSyntax_def last_item_eq type_attribute_none)
next
  fix pre a post
  assume "html_ancestors ctx \<noteq> [] \<and> anc_name (last (html_ancestors ctx)) = ''style''
        \<and> attributes
             (slice code (fst (anc_range (last (html_ancestors ctx))))
                (snd (anc_range (last (html_ancestors ctx)))))
             ''style'' = pre @ a # post
        \<and> (\<forall>x \<in> set pre. attr_name x \<noteq> ''type'') \<and> attr_name a = ''type''"
  then show "getEmbeddedStyleSyntax attributes attributeValue code ctx = attributeValue a"
    by (simp add: getEmbeddedStyleSyntax_def last_item_eq type_attribute_first)
next
  fix i j
  assume "0 \<le> i \<and> i \<le> j \<and> j \<le> int (length code)"
  then show "slice code i j = map (\<lambda>k. code ! k) [nat i..<nat j]"
    by (simp add: slice_in_range)
qed

theorem getEmbeddedStyleSyntax_type_witness:
  "getEmbeddedStyleSyntax ex_attributes attr_value ex_code ex_root_ctx = None
   \<and> getEmbeddedStyleSyntax ex_attributes attr_value ex_code ex_div_ctx = None
   \<and> getEmbeddedStyleSyntax ex_attributes attr_value ex_code ex_plain_style_ctx = None
   \<and> getEmbeddedStyleSyntax ex_attributes attr_value ex_code ex_style_ctx = Some ''text/scss''
   \<and> slice ex_code 0 22 = map (\<lambda>k. ex_code ! k) [nat 0..<nat 22]"
proof -
  have "getEmbeddedStyleSyntax ex_attributes attr_value ex_code ex_root_ctx = None"
    using getEmbeddedStyleSyntax_type [of ex_root_ctx ex_attributes attr_value ex_code]
    by (simp add: ex_root_ctx_def)
  moreover have "getEmbeddedStyleSyntax ex_attributes attr_value ex_code ex_div_ctx = None"
    using getEmbeddedStyleSyntax_type [of ex_div_ctx ex_attributes attr_value ex_code]
    by (simp add: ex_div_ctx_def)
  moreover have
    "getEmbeddedStyleSyntax ex_attributes attr_value ex_code ex_plain_style_ctx = None"
  proof -
    have "html_ancestors ex_plain_style_ctx \<noteq> []
          \<and> anc_name (last (html_ancestors ex_plain_style_ctx)) = ''style''
          \<and> (\<forall>a \<in> set (ex_attributes
                 (slice ex_code (fst (anc_range (last (html_ancestors ex_plain_style_ctx))))
                    (snd (anc_range (last (html_ancestors ex_plain_style_ctx)))))
                 ''style''). attr_name a \<noteq> ''type'')"
      by (simp add: ex_plain_style_ctx_def ex_slice2 ex_attributes_def)
    then show ?thesis
      using getEmbeddedStyleSyntax_type [of ex_plain_style_ctx ex_attributes attr_value ex_code]
      by blast
  qed
  moreover have
    "getEmbeddedStyleSyntax ex_attributes attr_value ex_code ex_style_ctx = Some ''text/scss''"
  proof -
    have "html_ancestors ex_style_ctx \<noteq> []
          \<and> anc_name (last (html_ancestors ex_style_ctx)) = ''style''
          \<and> ex_attributes
               (slice ex_code (fst (anc_range (last (html_ancestors ex_style_ctx))))
                  (snd (anc_range (last (html_ancestors ex_style_ctx)))))
               ''style''
             = [\<lparr>attr_name = ''media'', attr_value = None\<rparr>]
                 @ \<lparr>attr_name = ''type'', attr_value = Some ''text/scss''\<rparr> # []
          \<and> (\<forall>x \<in> set [\<lparr>attr_name = ''media'', attr_value = None\<rparr>]. attr_name x \<noteq> ''type'')
          \<and> attr_name \<lparr>attr_name = ''type'', attr_value = Some ''text/scss''\<rparr> = ''type''"
      by (simp add: ex_style_ctx_def ex_slice ex_attributes_def)
    then have "getEmbeddedStyleSyntax ex_attributes attr_value ex_code ex_style_ctx
               = attr_value \<lparr>attr_name = ''type'', attr_value = Some ''text/scss''\<rparr>"
      using getEmbeddedStyleSyntax_type [of ex_style_ctx ex_attributes attr_value ex_code]
      by blast
    then show ?thesis
      by simp
  qed
  moreover have "slice ex_code 0 22 = map (\<lambda>k. ex_code ! k) [nat 0..<nat 22]"
    using getEmbeddedStyleSyntax_type [of ex_root_ctx ex_attributes attr_value ex_code]
    by (simp add: ex_code_def)
  ultimately show ?thesis
    by blast
qed

section \<open>Properties of the syntax information\<close>

lemma getSyntaxType_css: "getSyntaxType (Some ''css'') = Stylesheet"
  by (simp add: array_includes_def stylesheetSyntaxes_def cssSyntaxes_def)

text \<open>
  C1. Let the context be the one given to \<^term>\<open>syntaxInfo\<close>, or the one resolved at the
  offset given. For an HTML context with a nested CSS context the result is an inline
  stylesheet: type stylesheet, syntax \<^verbatim>\<open>css\<close>, \<^verbatim>\<open>inline\<close> true and the nested CSS
  context as its context. For a CSS context the syntax is \<^verbatim>\<open>css\<close> and \<^verbatim>\<open>inline\<close> is
  unset. In every other case the syntax is that of the document.
\<close>

theorem syntaxInfo_override:
  "(\<forall>h c. spec_context_of getContext state ctx = Some (HTML h) \<and> html_css h = Some c \<longrightarrow>
      syntaxInfo getContext state ctx =
        \<lparr>si_type = Stylesheet, si_syntax = Some ''css'', si_inline = Some True,
         si_context = Some (CSS c)\<rparr>)
   \<and> (\<forall>c. spec_context_of getContext state ctx = Some (CSS c) \<longrightarrow>
      syntaxInfo getContext state ctx =
        \<lparr>si_type = Stylesheet, si_syntax = Some ''css'', si_inline = None,
         si_context = Some (CSS c)\<rparr>)
   \<and> ((spec_context_of getContext state ctx = None
        \<or> (\<exists>h. spec_context_of getContext state ctx = Some (HTML h) \<and> html_css h = None)) \<longrightarrow>
      syntaxInfo getContext state ctx =
        \<lparr>si_type = getSyntaxType (Some (docSyntax state)), si_syntax = Some (docSyntax state),
         si_inline = None, si_context = spec_context_of getContext state ctx\<rparr>)"
  by (cases ctx) (auto simp add: syntaxInfo_def Let_def getSyntaxType_css simp del: getSyntaxType.simps)

theorem syntaxInfo_override_witness:
  "syntaxInfo (\<lambda>st pos. None) ex_state (CtxGiven (HTML ex_html)) =
     \<lparr>si_type = Stylesheet, si_syntax = Some ''css'', si_inline = Some True,
      si_context = Some (CSS ex_css)\<rparr>
   \<and> syntaxInfo (\<lambda>st pos. Some (CSS ex_css)) ex_state (CtxPos 6) =
     \<lparr>si_type = Stylesheet, si_syntax = Some ''css'', si_inline = None,
      si_context = Some (CSS ex_css)\<rparr>
   \<and> syntaxInfo (\<lambda>st pos. None) ex_state CtxAbsent =
     \<lparr>si_type = Markup, si_syntax = Some ''html'', si_inline = None, si_context = None\<rparr>"
proof -
  have a: "spec_context_of (\<lambda>st pos. None) ex_state (CtxGiven (HTML ex_html)) = Some (HTML ex_html)
           \<and> html_css ex_html = Some ex_css"
    by (simp add: ex_html_def)
  have b: "spec_context_of (\<lambda>st pos. Some (CSS ex_css)) ex_state (CtxPos 6) = Some (CSS ex_css)"
    by simp
  have c: "spec_context_of (\<lambda>st pos. None) ex_state CtxAbsent = None"
    by simp
  have d: "docSyntax ex_state = ''html''"
    by (simp add: docSyntax_def ex_state_def)
  have e: "getSyntaxType (Some ''html'') = Markup"
    by (simp add: array_includes_def stylesheetSyntaxes_def cssSyntaxes_def)
  from a have "syntaxInfo (\<lambda>st pos. None) ex_state (CtxGiven (HTML ex_html)) =
     \<lparr>si_type = Stylesheet, si_syntax = Some ''css'', si_inline = Some True,
      si_context = Some (CSS ex_css)\<rparr>"
    using syntaxInfo_override [of "\<lambda>st pos. None" ex_state "CtxGiven (HTML ex_html)"] by blast
  moreover from b have "syntaxInfo (\<lambda>st pos. Some (CSS ex_css)) ex_state (CtxPos 6) =
     \<lparr>si_type = Stylesheet, si_syntax = Some ''css'', si_inline = None,
      si_context = Some (CSS ex_css)\<rparr>"
    using syntaxInfo_override [of "\<lambda>st pos. Some (CSS ex_css)" ex_state "CtxPos 6"] by blast
  moreover from c d e have "syntaxInfo (\<lambda>st pos. None) ex_state CtxAbsent =
     \<lparr>si_type = Markup, si_syntax = Some ''html'', si_inline = None, si_context = None\<rparr>"
    using syntaxInfo_override [of "\<lambda>st pos. None" ex_state CtxAbsent] by simp
  ultimately show ?thesis
    by simp
qed

text \<open>The examples the spec gives for the feature switch and for the scope.\<close>

lemma enabledForSyntax_examples:
  "enabledForSyntax (OptArray [''css-inline''])
     \<lparr>si_type = Stylesheet, si_syntax = Some ''css'', si_inline = Some True, si_context = None\<rparr>"
  "enabledForSyntax (OptArray [''css''])
     \<lparr>si_type = Stylesheet, si_syntax = Some ''css'', si_inline = Some False,
      si_context = None\<rparr>"
  "\<not> enabledForSyntax (OptArray [''scss''])
     \<lparr>si_type = Stylesheet, si_syntax = Some ''css'', si_inline = Some True, si_context = None\<rparr>"
  by (simp_all add: candidates_of_def array_includes_def)

lemma getStylesheetAbbreviationContext_examples:
  "getStylesheetAbbreviationContext
     \<lparr>css_ancestors = [], css_inline = None,
      css_current = Some \<lparr>tok_type = Selector, tok_range = (0, 3)\<rparr>\<rparr>
   = \<lparr>ac_name = ''@@section'', ac_attributes = None\<rparr>"
  "getStylesheetAbbreviationContext
     \<lparr>css_ancestors = [\<lparr>anc_name = ''.foo'', anc_range = (0, 10)\<rparr>], css_inline = None,
      css_current = Some \<lparr>tok_type = PropertyValue, tok_range = (5, 8)\<rparr>\<rparr>
   = \<lparr>ac_name = ''.foo'', ac_attributes = None\<rparr>"
  "getStylesheetAbbreviationContext
     \<lparr>css_ancestors = [\<lparr>anc_name = ''.foo'', anc_range = (0, 10)\<rparr>],
      css_inline = Some True,
      css_current = Some \<lparr>tok_type = PropertyValue, tok_range = (5, 8)\<rparr>\<rparr>
   = \<lparr>ac_name = ''@@property'', ac_attributes = None\<rparr>"
  by (simp_all add: getStylesheetAbbreviationContext_def last_item_def scope_Section_def
      scope_Property_def scope_Global_def)

end
